theory Spec2Isabelle
  imports Complex_Main "HOL-Library.Log_Nat"
begin

section \<open>JavaScript values\<close>

text \<open>
  A JavaScript number is a double: not-a-number, one of the two infinities, or a finite
  value. A finite double is kept as the real number it denotes; comparisons of doubles
  are exact on these, and every operation that rounds is written out or is a parameter.
\<close>

datatype jsnum = NaN | NegInf | Fin real | PosInf

fun js_lt :: "jsnum \<Rightarrow> jsnum \<Rightarrow> bool" where
  "js_lt (Fin a) (Fin b) = (a < b)"
| "js_lt NegInf (Fin b) = True"
| "js_lt NegInf PosInf = True"
| "js_lt (Fin a) PosInf = True"
| "js_lt _ _ = False"

definition isNaN :: "jsnum \<Rightarrow> bool" where
  "isNaN n = (n = NaN)"



text \<open>
  The value \<open>request.json()\<close> resolves to: any JSON value. An object is the list of
  its own properties; \<open>map_of\<close> reads one. A string is kept as its bytes.
\<close>

datatype json =
    JNull
  | JBool bool
  | JNum jsnum
  | JStr string
  | JArr "json list"
  | JObj "(string \<times> json) list"

datatype js_error = SyntaxError | TypeError | D1_ERROR | D1_TYPE_ERROR

text \<open>
  \<open>body.hasOwnProperty('temperature')\<close>. Reading a property of \<open>null\<close> throws; an
  object that owns a property called \<open>hasOwnProperty\<close> shadows the inherited method
  with a JSON value, which is not callable; numbers, booleans, strings and arrays inherit
  the method and own no property of that name.
\<close>

fun hasOwnProperty_temperature :: "json \<Rightarrow> js_error + bool" where
  "hasOwnProperty_temperature JNull = Inl TypeError"
| "hasOwnProperty_temperature (JObj kvs) =
     (if map_of kvs ''hasOwnProperty'' \<noteq> None then Inl TypeError
      else Inr (map_of kvs ''temperature'' \<noteq> None))"
| "hasOwnProperty_temperature _ = Inr False"

text \<open>\<open>body.k\<close> for the keys the handler reads; \<open>None\<close> is \<open>undefined\<close>.\<close>

fun get_prop :: "json \<Rightarrow> string \<Rightarrow> json option" where
  "get_prop (JObj kvs) k = map_of kvs k"
| "get_prop _ k = None"

text \<open>
  The conversion of a JSON value to a string. An object that owns a property named
  \<open>toString\<close> has a JSON value where the method is looked up, which is not callable, and
  the inherited \<open>valueOf\<close> returns the object itself: the conversion throws. Any other
  object prints as \<open>[object Object]\<close>. An array joins the strings of its elements with
  commas, \<open>null\<close> elements printing as the empty string, and throws when an element
  does. \<open>ns\<close> prints a number.
\<close>

fun toString_throws :: "json \<Rightarrow> bool" where
  "toString_throws (JObj kvs) = (map_of kvs ''toString'' \<noteq> None)"
| "toString_throws (JArr vs) = list_ex toString_throws vs"
| "toString_throws _ = False"

fun join_with :: "string \<Rightarrow> string list \<Rightarrow> string" where
  "join_with sep [] = []"
| "join_with sep [x] = x"
| "join_with sep (x # y # ys) = x @ sep @ join_with sep (y # ys)"

fun toString_text :: "(jsnum \<Rightarrow> string) \<Rightarrow> json \<Rightarrow> string" where
  "toString_text ns JNull = ''null''"
| "toString_text ns (JBool b) = (if b then ''true'' else ''false'')"
| "toString_text ns (JNum n) = ns n"
| "toString_text ns (JStr s) = s"
| "toString_text ns (JObj kvs) = ''[object Object]''"
| "toString_text ns (JArr vs) =
     join_with '','' (map (\<lambda>v. if v = JNull then [] else toString_text ns v) vs)"

text \<open>
  \<open>parseFloat(v)\<close> converts \<open>v\<close> to a string and reads the longest numeric prefix of
  it. What a string reads as is the parameter \<open>pf\<close>.
\<close>

definition parseFloat :: "(string \<Rightarrow> jsnum) \<Rightarrow> (jsnum \<Rightarrow> string) \<Rightarrow> json \<Rightarrow> js_error + jsnum" where
  "parseFloat pf ns v =
     (if toString_throws v then Inl TypeError else Inr (pf (toString_text ns v)))"

fun truthy :: "json \<Rightarrow> bool" where
  "truthy JNull = False"
| "truthy (JBool b) = b"
| "truthy (JNum n) = (n \<noteq> NaN \<and> n \<noteq> Fin 0)"
| "truthy (JStr s) = (s \<noteq> [])"
| "truthy _ = True"

section \<open>The readings table\<close>

text \<open>
  The schema: \<open>id INTEGER PRIMARY KEY AUTOINCREMENT\<close>, \<open>temperature REAL NOT NULL\<close>,
  \<open>timestamp DATETIME DEFAULT CURRENT_TIMESTAMP\<close>, \<open>device_id TEXT DEFAULT 'pico_xxx'\<close>,
  \<open>metadata TEXT\<close>.
\<close>

datatype sqlval = SqlNull | SqlInt int | SqlReal real | SqlText string | SqlBlob "nat list"

record reading_row =
  r_id :: nat
  r_temperature :: sqlval
  r_timestamp :: sqlval
  r_device_id :: sqlval
  r_metadata :: sqlval

record d1 =
  rows :: "reading_row list"
  last_row_id :: nat


text \<open>
  The storage engine is outside the repository, which holds the schema and the SQL text
  only. The engine refuses to bind \<open>undefined\<close>. What it stores in a column for any other
  bound value (its type conversion and the column's affinity), or that it refuses the
  value, is the parameter \<open>store\<close>.
\<close>

fun d1_bind ::
  "(string \<Rightarrow> json \<Rightarrow> js_error + sqlval) \<Rightarrow> string \<Rightarrow> json option \<Rightarrow> js_error + sqlval" where
  "d1_bind store c None = Inl D1_TYPE_ERROR"
| "d1_bind store c (Some v) = store c v"

text \<open>
  \<open>INSERT INTO temperature_readings (temperature, device_id, timestamp, metadata)
  VALUES (?, ?, ?, ?)\<close>: the four named columns take the bound values (a column default
  applies only to a column the statement leaves out, here \<open>id\<close>, which AUTOINCREMENT
  numbers); \<open>temperature\<close> is NOT NULL. A statement that fails stores nothing.
\<close>

definition d1_insert ::
  "(string \<Rightarrow> json \<Rightarrow> js_error + sqlval) \<Rightarrow> d1 \<Rightarrow> json option \<Rightarrow> json option \<Rightarrow> json option
     \<Rightarrow> json option \<Rightarrow> js_error + (d1 \<times> nat)" where
  "d1_insert store db temperature device_id timestamp metadata =
     (case d1_bind store ''temperature'' temperature of Inl e \<Rightarrow> Inl e | Inr t \<Rightarrow>
      case d1_bind store ''device_id'' device_id of Inl e \<Rightarrow> Inl e | Inr d \<Rightarrow>
      case d1_bind store ''timestamp'' timestamp of Inl e \<Rightarrow> Inl e | Inr ts \<Rightarrow>
      case d1_bind store ''metadata'' metadata of Inl e \<Rightarrow> Inl e | Inr m \<Rightarrow>
        if t = SqlNull then Inl D1_ERROR
        else
          let new_id = Suc (last_row_id db);
              row = \<lparr>r_id = new_id, r_temperature = t, r_timestamp = ts,
                     r_device_id = d, r_metadata = m\<rparr>
          in Inr (db\<lparr>rows := rows db @ [row], last_row_id := new_id\<rparr>, new_id))"

section \<open>The insert endpoint\<close>

datatype post_response = PostOk nat | PostError nat string

fun post_status :: "post_response \<Rightarrow> nat" where
  "post_status (PostOk i) = 200"
| "post_status (PostError st msg) = st"

text \<open>
  The body of the handler's \<open>try\<close> block, in the order of the source: the field check,
  \<open>parseFloat\<close> and the range check, the database check, the insert. \<open>Inl\<close> is a thrown
  exception. The second component is the store after the request; \<open>stringify\<close> is
  \<open>JSON.stringify\<close>.
\<close>

definition POST_try ::
  "(string \<Rightarrow> jsnum) \<Rightarrow> (jsnum \<Rightarrow> string) \<Rightarrow> (json \<Rightarrow> string)
     \<Rightarrow> (string \<Rightarrow> json \<Rightarrow> js_error + sqlval) \<Rightarrow> json \<Rightarrow> d1 option
     \<Rightarrow> js_error + (post_response \<times> d1 option)" where
  "POST_try pf ns stringify store body platform =
     (case hasOwnProperty_temperature body of
        Inl e \<Rightarrow> Inl e
      | Inr False \<Rightarrow> Inr (PostError 400 ''temperature field is required'', platform)
      | Inr True \<Rightarrow>
          (case (case get_prop body ''temperature'' of
                   None \<Rightarrow> Inr NaN
                 | Some v \<Rightarrow> parseFloat pf ns v) of
             Inl e \<Rightarrow> Inl e
           | Inr temperature \<Rightarrow>
               if isNaN temperature \<or> js_lt temperature (Fin (- 50)) \<or> js_lt (Fin 100) temperature
               then Inr (PostError 400 ''temperature must be a number between -50 and 100'', platform)
               else
                 (case platform of
                    None \<Rightarrow> Inr (PostError 500 ''Database not available'', platform)
                  | Some db \<Rightarrow>
                      (case d1_insert store db (Some (JNum temperature))
                              (get_prop body ''device_id'') (get_prop body ''timestamp'')
                              (case get_prop body ''metadata'' of
                                 None \<Rightarrow> Some JNull
                               | Some m \<Rightarrow>
                                   if truthy m then Some (JStr (stringify m)) else Some JNull) of
                         Inl e \<Rightarrow> Inl e
                       | Inr (db', new_id) \<Rightarrow> Inr (PostOk new_id, Some db')))))"

text \<open>
  The handler: \<open>request.json()\<close> has either thrown or produced a value; every exception
  of the \<open>try\<close> block is answered with status 500.
\<close>

definition POST ::
  "(string \<Rightarrow> jsnum) \<Rightarrow> (jsnum \<Rightarrow> string) \<Rightarrow> (json \<Rightarrow> string)
     \<Rightarrow> (string \<Rightarrow> json \<Rightarrow> js_error + sqlval) \<Rightarrow> js_error + json \<Rightarrow> d1 option
     \<Rightarrow> post_response \<times> d1 option" where
  "POST pf ns stringify store request platform =
     (case request of
        Inl e \<Rightarrow> (PostError 500 ''Failed to save temperature reading'', platform)
      | Inr body \<Rightarrow>
          (case POST_try pf ns stringify store body platform of
             Inl e \<Rightarrow> (PostError 500 ''Failed to save temperature reading'', platform)
           | Inr r \<Rightarrow> r))"

section \<open>The list endpoint\<close>





text \<open>
  The order of SQL values: NULL first, then numbers by value, then text byte by byte,
  then blobs. Among rows of equal timestamp the one inserted later comes first.
\<close>

fun bytes_less :: "nat list \<Rightarrow> nat list \<Rightarrow> bool" where
  "bytes_less [] [] = False"
| "bytes_less [] (b # bs) = True"
| "bytes_less (a # as) [] = False"
| "bytes_less (a # as) (b # bs) = (a < b \<or> (a = b \<and> bytes_less as bs))"

definition str_less :: "string \<Rightarrow> string \<Rightarrow> bool" where
  "str_less a b = bytes_less (map of_char a) (map of_char b)"

fun sql_rank :: "sqlval \<Rightarrow> nat" where
  "sql_rank SqlNull = 0"
| "sql_rank (SqlInt a) = 1"
| "sql_rank (SqlReal a) = 1"
| "sql_rank (SqlText a) = 2"
| "sql_rank (SqlBlob a) = 3"

fun sql_less :: "sqlval \<Rightarrow> sqlval \<Rightarrow> bool" where
  "sql_less (SqlInt a) (SqlInt b) = (a < b)"
| "sql_less (SqlInt a) (SqlReal b) = (real_of_int a < b)"
| "sql_less (SqlReal a) (SqlInt b) = (a < real_of_int b)"
| "sql_less (SqlReal a) (SqlReal b) = (a < b)"
| "sql_less (SqlText a) (SqlText b) = str_less a b"
| "sql_less (SqlBlob a) (SqlBlob b) = bytes_less a b"
| "sql_less x y = (sql_rank x < sql_rank y)"

fun insert_desc :: "reading_row \<Rightarrow> reading_row list \<Rightarrow> reading_row list" where
  "insert_desc r [] = [r]"
| "insert_desc r (x # xs) =
     (if sql_less (r_timestamp r) (r_timestamp x) then x # insert_desc r xs else r # x # xs)"

definition order_by_timestamp_desc :: "reading_row list \<Rightarrow> reading_row list" where
  "order_by_timestamp_desc rs = fold insert_desc rs []"










definition parseFloat_sample :: "string \<Rightarrow> jsnum" where
  "parseFloat_sample s = (if s = ''25'' then Fin 25 else NaN)"

definition number_sample :: "jsnum \<Rightarrow> string" where
  "number_sample n = (if n = Fin 25 then ''25'' else ''NaN'')"

definition stringify_sample :: "json \<Rightarrow> string" where
  "stringify_sample v = ''(metadata)''"

definition store_sample :: "string \<Rightarrow> json \<Rightarrow> js_error + sqlval" where
  "store_sample c v =
     (case v of
        JNull \<Rightarrow> Inr SqlNull
      | JBool b \<Rightarrow> Inr (SqlInt (if b then 1 else 0))
      | JNum (Fin x) \<Rightarrow> Inr (SqlReal x)
      | JStr s \<Rightarrow> Inr (SqlText s)
      | _ \<Rightarrow> Inl D1_TYPE_ERROR)"

section \<open>The client data layer\<close>

text \<open>
  A reading as the list endpoint delivers it, and a point of the display sequence. The
  fields \<open>id\<close>, \<open>device_id\<close> and \<open>dbTimestamp\<close> exist on fetched points only.
\<close>

record pico_data =
  a_id :: nat
  a_temperature :: real
  a_timestamp :: json
  a_device_id :: json

record display_point =
  p_time :: real
  p_temperature :: real
  p_timestamp :: string
  p_id :: "nat option"
  p_device_id :: "json option"
  p_dbTimestamp :: "json option"

record api_result =
  res_ok :: bool
  res_data :: "pico_data list option"

text \<open>\<open>Math.round\<close> rounds a half upwards.\<close>

definition js_round :: "real \<Rightarrow> real" where
  "js_round x = real_of_int \<lfloor>x + 1 / 2\<rfloor>"

text \<open>
  The fallback generator. Its loop runs \<open>i\<close> from 0 while \<open>i < 60\<close>, carrying
  \<open>baseTemp\<close> and the array built so far. \<open>rnd k\<close> is what the \<open>k\<close>-th call of
  \<open>Math.random\<close> returns, \<open>now i\<close> what \<open>Date.now()\<close> returns in round \<open>i\<close>, and
  \<open>fmt\<close> is \<open>toLocaleTimeString\<close> on a time in milliseconds.
\<close>

function generate_loop ::
  "(nat \<Rightarrow> real) \<Rightarrow> (nat \<Rightarrow> int) \<Rightarrow> (int \<Rightarrow> string) \<Rightarrow> nat \<Rightarrow> real \<Rightarrow> display_point list
     \<Rightarrow> display_point list" where
  "generate_loop rnd now fmt i baseTemp data =
     (if i < 60 then
        let variation = sin (real i / 10) * 8 + (rnd (2 * i) - 0.5) * 4;
            temp = max 20 (min 50 (baseTemp + variation));
            point = \<lparr>p_time = real i,
                     p_temperature = js_round (temp * 10) / 10,
                     p_timestamp = fmt (now i + int i * 60000),
                     p_id = None, p_device_id = None, p_dbTimestamp = None\<rparr>
        in generate_loop rnd now fmt (Suc i) (baseTemp + (rnd (2 * i + 1) - 0.5) * 0.5)
             (data @ [point])
      else data)"
  by pat_completeness auto
termination
  by (relation "measure (\<lambda>(rnd, now, fmt, i, baseTemp, data). 60 - i)") auto

declare generate_loop.simps [simp del]

definition generateTemperatureData ::
  "(nat \<Rightarrow> real) \<Rightarrow> (nat \<Rightarrow> int) \<Rightarrow> (int \<Rightarrow> string) \<Rightarrow> display_point list" where
  "generateTemperatureData rnd now fmt = generate_loop rnd now fmt 0 35 []"

text \<open>
  The fetch. The response is a thrown exception (the transport or the JSON parser
  failed) or the parsed result. \<open>getTime\<close> is \<open>new Date(t).getTime()\<close>; the sort of
  the source compares two readings by the difference of their times, and the engine's
  sort is stable, so the result is the stable sort by that key. (A timestamp that is no
  date gives a comparator that returns not-a-number, for which the order is not
  specified; \<open>getTime\<close> returns a time for every timestamp.)
\<close>

definition to_point :: "(int \<Rightarrow> string) \<Rightarrow> (json \<Rightarrow> int) \<Rightarrow> nat \<times> pico_data \<Rightarrow> display_point" where
  "to_point fmt getTime ir =
     (case ir of (index, reading) \<Rightarrow>
        \<lparr>p_time = real index,
         p_temperature = a_temperature reading,
         p_timestamp = fmt (getTime (a_timestamp reading)),
         p_id = Some (a_id reading),
         p_device_id = Some (a_device_id reading),
         p_dbTimestamp = Some (a_timestamp reading)\<rparr>)"

definition fetchTemperatureData ::
  "(nat \<Rightarrow> real) \<Rightarrow> (nat \<Rightarrow> int) \<Rightarrow> (int \<Rightarrow> string) \<Rightarrow> (json \<Rightarrow> int) \<Rightarrow> js_error + api_result
     \<Rightarrow> display_point list" where
  "fetchTemperatureData rnd now fmt getTime response =
     (case response of
        Inl e \<Rightarrow> generateTemperatureData rnd now fmt
      | Inr result \<Rightarrow>
          (case res_data result of
             None \<Rightarrow> generateTemperatureData rnd now fmt
           | Some data \<Rightarrow>
               if res_ok result then
                 let sortedData = sort_key (\<lambda>r. getTime (a_timestamp r)) data
                 in map (to_point fmt getTime) (enumerate 0 sortedData)
               else generateTemperatureData rnd now fmt))"

text \<open>
  The body \<open>addTemperatureReading\<close> posts, as the server's \<open>request.json()\<close> reads it
  back: \<open>JSON.stringify\<close> writes a number that is not finite as \<open>null\<close>.
\<close>

definition json_number :: "jsnum \<Rightarrow> json" where
  "json_number n = (case n of Fin x \<Rightarrow> JNum (Fin x) | _ \<Rightarrow> JNull)"

definition addTemperatureReading_body :: "(string \<Rightarrow> jsnum) \<Rightarrow> string \<Rightarrow> string \<Rightarrow> json" where
  "addTemperatureReading_body pf temperature location =
     JObj [(''temperature'', json_number (pf temperature)),
           (''location'', JStr location),
           (''metadata'', JObj [(''source'', JStr ''manual_entry'')])]"

section \<open>The refresh scheduler\<close>









section \<open>The graph renderer\<close>

definition width :: real where "width = 800"
definition height :: real where "height = 400"
definition padding_top :: real where "padding_top = 20"
definition padding_right :: real where "padding_right = 40"
definition padding_bottom :: real where "padding_bottom = 60"
definition padding_left :: real where "padding_left = 60"

definition graphWidth :: real where
  "graphWidth = width - padding_left - padding_right"

definition graphHeight :: real where
  "graphHeight = height - padding_top - padding_bottom"

definition xScale :: "display_point list \<Rightarrow> real \<Rightarrow> real" where
  "xScale temperatureData time =
     (if length temperatureData = 0 then 0
      else let maxTime = max (real (length temperatureData) - 1) 59
           in graphWidth - (time / maxTime) * graphWidth)"

definition yScale :: "real \<Rightarrow> real" where
  "yScale temp = graphHeight - ((temp - 20) / 30) * graphHeight"

text \<open>
  The two scales above are written over exact arithmetic. The code computes in doubles,
  where a subtraction, a multiplication and a division each round their result. Below,
  the same functions take these three operations as a parameter; nothing is assumed of
  them. \<open>maxTime\<close> is the denominator of the horizontal scale, \<open>xScale_body\<close> the part
  of \<open>xScale\<close> after its guard. With the exact operations \<open>xScale_fl\<close> is \<open>xScale\<close>.
\<close>

record float_ops =
  f_sub :: "real \<Rightarrow> real \<Rightarrow> real"
  f_mul :: "real \<Rightarrow> real \<Rightarrow> real"
  f_div :: "real \<Rightarrow> real \<Rightarrow> real"

definition exact_ops :: float_ops where
  "exact_ops = \<lparr>f_sub = (\<lambda>a b. a - b), f_mul = (\<lambda>a b. a * b), f_div = (\<lambda>a b. a / b)\<rparr>"

definition maxTime :: "display_point list \<Rightarrow> real" where
  "maxTime temperatureData = max (real (length temperatureData) - 1) 59"

definition xScale_body :: "float_ops \<Rightarrow> display_point list \<Rightarrow> real \<Rightarrow> real" where
  "xScale_body ops temperatureData time =
     f_sub ops graphWidth (f_mul ops (f_div ops time (maxTime temperatureData)) graphWidth)"

definition xScale_fl :: "float_ops \<Rightarrow> display_point list \<Rightarrow> real \<Rightarrow> real" where
  "xScale_fl ops temperatureData time =
     (if length temperatureData = 0 then 0 else xScale_body ops temperatureData time)"

definition yScale_fl :: "float_ops \<Rightarrow> real \<Rightarrow> real" where
  "yScale_fl ops temp =
     f_sub ops graphHeight (f_mul ops (f_div ops (f_sub ops temp 20) 30) graphHeight)"

text \<open>\<open>xs.join(' ')\<close>, and the path; \<open>str\<close> prints a number in a template string.\<close>

definition join :: "string list \<Rightarrow> string" where
  "join xs = join_with '' '' xs"

definition generatePath ::
  "float_ops \<Rightarrow> (real \<Rightarrow> string) \<Rightarrow> display_point list \<Rightarrow> display_point list \<Rightarrow> string" where
  "generatePath ops str temperatureData data =
     join (map (\<lambda>(i, point).
                  let x = xScale_fl ops temperatureData (p_time point);
                      y = yScale_fl ops (p_temperature point)
                  in if i = 0 then ''M '' @ str x @ '' '' @ str y
                     else ''L '' @ str x @ '' '' @ str y)
               (enumerate (0::nat) data))"

text \<open>
  Hit-testing. The loop over the display sequence carries \<open>closestPoint\<close> and
  \<open>closestDistance\<close>; the distance starts at \<open>Infinity\<close>, which is \<open>None\<close> here. The
  graph container is the position of its bounding rectangle once the element is bound.
\<close>

record hovered =
  h_point :: display_point
  h_x :: real
  h_y :: real

record mouse_event =
  clientX :: real
  clientY :: real

record dom_rect =
  rect_left :: real
  rect_top :: real

definition closest_step ::
  "float_ops \<Rightarrow> display_point list \<Rightarrow> real \<Rightarrow> display_point \<Rightarrow> hovered option \<times> real option
     \<Rightarrow> hovered option \<times> real option" where
  "closest_step ops temperatureData mouseX point acc =
     (case acc of (closestPoint, closestDistance) \<Rightarrow>
        let pointX = xScale_fl ops temperatureData (p_time point);
            distance = \<bar>f_sub ops pointX mouseX\<bar>
        in if (case closestDistance of None \<Rightarrow> True | Some d \<Rightarrow> distance < d)
           then (Some \<lparr>h_point = point, h_x = pointX,
                        h_y = yScale_fl ops (p_temperature point)\<rparr>,
                 Some distance)
           else (closestPoint, closestDistance))"

definition closest ::
  "float_ops \<Rightarrow> display_point list \<Rightarrow> real \<Rightarrow> hovered option \<times> real option" where
  "closest ops temperatureData mouseX =
     fold (closest_step ops temperatureData mouseX) temperatureData (None, None)"

definition handleMouseMove ::
  "float_ops \<Rightarrow> display_point list \<Rightarrow> dom_rect option \<Rightarrow> mouse_event \<Rightarrow> hovered option
     \<Rightarrow> hovered option" where
  "handleMouseMove ops temperatureData graphContainer event hoveredPoint =
     (case graphContainer of
        None \<Rightarrow> hoveredPoint
      | Some rect \<Rightarrow>
          let mouseX = f_sub ops (f_sub ops (clientX event) (rect_left rect)) padding_left;
              mouseY = f_sub ops (f_sub ops (clientY event) (rect_top rect)) padding_top
          in if mouseX \<ge> 0 \<and> mouseX \<le> graphWidth \<and> mouseY \<ge> 0 \<and> mouseY \<le> graphHeight then
               (case closest ops temperatureData mouseX of
                  (Some closestPoint, Some closestDistance) \<Rightarrow>
                    if closestDistance < 20 then Some closestPoint else None
                | _ \<Rightarrow> None)
             else None)"

section \<open>Auxiliary notions\<close>


text \<open>
  The horizontal distance of a point from the pointer as the loop of \<open>handleMouseMove\<close>
  computes it, and the object the loop stores for a point.
\<close>

definition distance_to :: "float_ops \<Rightarrow> display_point list \<Rightarrow> real \<Rightarrow> display_point \<Rightarrow> real" where
  "distance_to ops temperatureData mouseX point =
     \<bar>f_sub ops (xScale_fl ops temperatureData (p_time point)) mouseX\<bar>"

definition hover_of :: "float_ops \<Rightarrow> display_point list \<Rightarrow> display_point \<Rightarrow> hovered" where
  "hover_of ops temperatureData point =
     \<lparr>h_point = point, h_x = xScale_fl ops temperatureData (p_time point),
      h_y = yScale_fl ops (p_temperature point)\<rparr>"

section \<open>Properties of the insert endpoint\<close>

text \<open>Whatever the request, an answer other than 200 leaves the store as it was.\<close>

lemma POST_no_write:
  "post_status (fst (POST pf ns stringify store request platform)) \<noteq> 200
   \<Longrightarrow> snd (POST pf ns stringify store request platform) = platform"
proof (cases request)
  case (Inl e) then show ?thesis by (simp add: POST_def)
next
  case (Inr body)
  assume ne: "post_status (fst (POST pf ns stringify store request platform)) \<noteq> 200"
  show ?thesis
  proof (cases "POST_try pf ns stringify store body platform")
    case (Inl e) with Inr show ?thesis by (simp add: POST_def)
  next
    case r: (Inr rp)
    obtain r p where rp: "rp = (r, p)" by (cases rp)
    from r rp Inr ne have "post_status r \<noteq> 200" by (simp add: POST_def)
    with r rp have "p = platform"
      unfolding POST_try_def
      by (auto split: sum.splits bool.splits if_splits option.splits prod.splits)
    with r rp Inr show ?thesis by (simp add: POST_def)
  qed
qed

text \<open>
  C1. The body \<open>null\<close> has no temperature field, and the body
  \<open>{"temperature": {"toString": 1}}\<close> has a temperature that is no number. For both,
  an exception is thrown inside the \<open>try\<close> block (by the field check on \<open>null\<close>, by
  \<open>parseFloat\<close> on the object), and the handler answers with status 500, not 400. The
  store is untouched.
\<close>

theorem POST_null_body:
  "get_prop JNull ''temperature'' = None
   \<and> POST pf ns stringify store (Inr JNull) platform
       = (PostError 500 ''Failed to save temperature reading'', platform)
   \<and> POST pf ns stringify store
        (Inr (JObj [(''temperature'', JObj [(''toString'', JNum (Fin 1))])])) platform
       = (PostError 500 ''Failed to save temperature reading'', platform)"
  by (simp add: POST_def POST_try_def parseFloat_def)

text \<open>What the handler does with the body the page's add operation sends.\<close>

lemma add_body_props:
  "hasOwnProperty_temperature (addTemperatureReading_body pf t loc) = Inr True"
  "get_prop (addTemperatureReading_body pf t loc) ''temperature'' = Some (json_number (pf t))"
  "get_prop (addTemperatureReading_body pf t loc) ''device_id'' = None"
  "get_prop (addTemperatureReading_body pf t loc) ''timestamp'' = None"
  "get_prop (addTemperatureReading_body pf t loc) ''location'' = Some (JStr loc)"
  "get_prop (addTemperatureReading_body pf t loc) ''metadata''
     = Some (JObj [(''source'', JStr ''manual_entry'')])"
  by (simp_all add: addTemperatureReading_body_def)

lemma d1_insert_undefined_device:
  "\<exists>e. d1_insert store db temperature None timestamp metadata = Inl e"
  by (cases "d1_bind store ''temperature'' temperature") (simp_all add: d1_insert_def)

lemma POST_try_add:
  "POST_try pf ns stringify store (addTemperatureReading_body pf t loc) platform =
     (case parseFloat pf ns (json_number (pf t)) of
        Inl e \<Rightarrow> Inl e
      | Inr temperature \<Rightarrow>
          if isNaN temperature \<or> js_lt temperature (Fin (- 50)) \<or> js_lt (Fin 100) temperature
          then Inr (PostError 400 ''temperature must be a number between -50 and 100'', platform)
          else (case platform of
                  None \<Rightarrow> Inr (PostError 500 ''Database not available'', platform)
                | Some db \<Rightarrow>
                    (case d1_insert store db (Some (JNum temperature)) None None
                            (Some (JStr (stringify (JObj [(''source'', JStr ''manual_entry'')])))) of
                       Inl e \<Rightarrow> Inl e
                     | Inr (db', new_id) \<Rightarrow> Inr (PostOk new_id, Some db'))))"
  by (cases "parseFloat pf ns (json_number (pf t))"; cases platform)
     (simp_all add: POST_try_def add_body_props)

lemma POST_add_never_stored:
  "snd (POST pf ns stringify store (Inr (addTemperatureReading_body pf t loc)) platform) = platform
   \<and> post_status (fst (POST pf ns stringify store (Inr (addTemperatureReading_body pf t loc)) platform))
       \<noteq> 200"
proof (cases "parseFloat pf ns (json_number (pf t))")
  case (Inl e)
  then show ?thesis by (simp add: POST_def POST_try_add)
next
  case (Inr temperature)
  show ?thesis
  proof (cases "isNaN temperature \<or> js_lt temperature (Fin (- 50)) \<or> js_lt (Fin 100) temperature")
    case True
    with Inr show ?thesis by (simp add: POST_def POST_try_add)
  next
    case False
    show ?thesis
    proof (cases platform)
      case None
      with Inr False show ?thesis by (simp add: POST_def POST_try_add)
    next
      case (Some db)
      obtain e where
        "d1_insert store db (Some (JNum temperature)) None None
           (Some (JStr (stringify (JObj [(''source'', JStr ''manual_entry'')])))) = Inl e"
        using d1_insert_undefined_device by blast
      with Inr False Some show ?thesis by (simp add: POST_def POST_try_add)
    qed
  qed
qed

text \<open>
  C9. The body of the add operation has the keys \<open>temperature\<close>, \<open>location\<close> and
  \<open>metadata\<close>, and neither \<open>device_id\<close> nor \<open>timestamp\<close>; the handler never reads
  \<open>location\<close>, so the answer and the table are the same for every location. The handler
  binds \<open>undefined\<close> for \<open>device_id\<close>, which the engine refuses: no reading sent by the
  add operation is stored and none is answered with 200. Where the temperature passes
  the range check and the store is available, the answer is status 500.
\<close>

theorem add_location_ignored:
  "map fst (case addTemperatureReading_body pf t loc of JObj kvs \<Rightarrow> kvs | _ \<Rightarrow> []) =
      [''temperature'', ''location'', ''metadata'']
   \<and> get_prop (addTemperatureReading_body pf t loc) ''device_id'' = None
   \<and> POST pf ns stringify store (Inr (addTemperatureReading_body pf t loc)) platform
     = POST pf ns stringify store (Inr (addTemperatureReading_body pf t loc')) platform
   \<and> snd (POST pf ns stringify store (Inr (addTemperatureReading_body pf t loc)) platform) = platform
   \<and> post_status (fst (POST pf ns stringify store (Inr (addTemperatureReading_body pf t loc)) platform))
       \<noteq> 200
   \<and> (\<forall>x db. parseFloat pf ns (json_number (pf t)) = Inr (Fin x) \<and> - 50 \<le> x \<and> x \<le> 100 \<longrightarrow>
         POST pf ns stringify store (Inr (addTemperatureReading_body pf t loc)) (Some db)
           = (PostError 500 ''Failed to save temperature reading'', Some db))"
proof (intro conjI allI impI)
  show "map fst (case addTemperatureReading_body pf t loc of JObj kvs \<Rightarrow> kvs | _ \<Rightarrow> []) =
      [''temperature'', ''location'', ''metadata'']"
    by (simp add: addTemperatureReading_body_def)
  show "get_prop (addTemperatureReading_body pf t loc) ''device_id'' = None"
    by (rule add_body_props)
  show "POST pf ns stringify store (Inr (addTemperatureReading_body pf t loc)) platform
     = POST pf ns stringify store (Inr (addTemperatureReading_body pf t loc')) platform"
    by (simp add: POST_def POST_try_add)
  show "snd (POST pf ns stringify store (Inr (addTemperatureReading_body pf t loc)) platform) = platform"
    using POST_add_never_stored by blast
  show "post_status (fst (POST pf ns stringify store (Inr (addTemperatureReading_body pf t loc)) platform))
       \<noteq> 200"
    using POST_add_never_stored by blast
next
  fix x db
  assume h: "parseFloat pf ns (json_number (pf t)) = Inr (Fin x) \<and> - 50 \<le> x \<and> x \<le> 100"
  obtain e where
    "d1_insert store db (Some (JNum (Fin x))) None None
        (Some (JStr (stringify (JObj [(''source'', JStr ''manual_entry'')])))) = Inl e"
    using d1_insert_undefined_device by blast
  with h show "POST pf ns stringify store (Inr (addTemperatureReading_body pf t loc)) (Some db)
           = (PostError 500 ''Failed to save temperature reading'', Some db)"
    by (simp add: POST_def POST_try_add isNaN_def)
qed

text \<open>
  Adding the temperature 25: the location makes no difference, and the request is
  answered with status 500, the table as before.
\<close>

theorem add_location_ignored_witness:
  "parseFloat parseFloat_sample number_sample (json_number (parseFloat_sample ''25'')) = Inr (Fin 25)
   \<and> POST parseFloat_sample number_sample stringify_sample store_sample
        (Inr (addTemperatureReading_body parseFloat_sample ''25'' ''lab''))
        (Some \<lparr>rows = [], last_row_id = 0\<rparr>)
     = POST parseFloat_sample number_sample stringify_sample store_sample
        (Inr (addTemperatureReading_body parseFloat_sample ''25'' ''kitchen''))
        (Some \<lparr>rows = [], last_row_id = 0\<rparr>)
   \<and> POST parseFloat_sample number_sample stringify_sample store_sample
        (Inr (addTemperatureReading_body parseFloat_sample ''25'' ''lab''))
        (Some \<lparr>rows = [], last_row_id = 0\<rparr>)
     = (PostError 500 ''Failed to save temperature reading'', Some \<lparr>rows = [], last_row_id = 0\<rparr>)"
proof -
  have p: "parseFloat parseFloat_sample number_sample (json_number (parseFloat_sample ''25''))
             = Inr (Fin 25)"
    by (simp add: parseFloat_def parseFloat_sample_def number_sample_def json_number_def)
  have r: "parseFloat parseFloat_sample number_sample (json_number (parseFloat_sample ''25''))
             = Inr (Fin 25) \<and> - 50 \<le> (25::real) \<and> (25::real) \<le> 100"
    using p by simp
  from add_location_ignored [of parseFloat_sample "''25''" "''lab''" number_sample stringify_sample
         store_sample "Some \<lparr>rows = [], last_row_id = 0\<rparr>" "''kitchen''"] p r
  show ?thesis by blast
qed

text \<open>
  The claim as written has a reading stored under the schema default. Adding 25 for
  location \<open>lab\<close> to an empty table stores no reading at all.
\<close>

theorem add_device_default_counterexample:
  "POST parseFloat_sample number_sample stringify_sample store_sample
      (Inr (addTemperatureReading_body parseFloat_sample ''25'' ''lab''))
      (Some \<lparr>rows = [], last_row_id = 0\<rparr>)
    = (PostError 500 ''Failed to save temperature reading'', Some \<lparr>rows = [], last_row_id = 0\<rparr>)"
  by (simp add: POST_def POST_try_add parseFloat_def parseFloat_sample_def number_sample_def
        json_number_def isNaN_def d1_insert_def store_sample_def)

section \<open>Properties of the list endpoint\<close>

lemma length_insert_desc: "length (insert_desc r xs) = Suc (length xs)"
  by (induction xs) auto

lemma length_fold_insert_desc: "length (fold insert_desc rs acc) = length rs + length acc"
  by (induction rs arbitrary: acc) (auto simp: length_insert_desc)

lemma length_order_by [simp]: "length (order_by_timestamp_desc rs) = length rs"
  by (simp add: order_by_timestamp_desc_def length_fold_insert_desc)














section \<open>Properties of the client data layer\<close>

lemma js_round_bounds:
  assumes "20 \<le> t" "t \<le> 50"
  shows "20 \<le> js_round (t * 10) / 10 \<and> js_round (t * 10) / 10 \<le> 50"
proof -
  have "(200::int) \<le> \<lfloor>t * 10 + 1 / 2\<rfloor>" using assms by (simp add: le_floor_iff)
  moreover have "\<lfloor>t * 10 + 1 / 2\<rfloor> \<le> (500::int)" using assms by (simp add: floor_le_iff)
  ultimately have "200 \<le> real_of_int \<lfloor>t * 10 + 1 / 2\<rfloor>" "real_of_int \<lfloor>t * 10 + 1 / 2\<rfloor> \<le> 500"
    by linarith+
  then show ?thesis by (simp add: js_round_def)
qed

lemma generate_loop_length:
  "i \<le> 60 \<Longrightarrow> length (generate_loop rnd now fmt i b data) = length data + (60 - i)"
proof (induction rnd now fmt i b data rule: generate_loop.induct)
  case (1 rnd now fmt i baseTemp data)
  show ?case
  proof (cases "i < 60")
    case True
    then show ?thesis
      using "1.IH" [OF True refl refl refl]
      by (subst generate_loop.simps) (simp add: Let_def)
  next
    case False
    with "1.prems" show ?thesis by (subst generate_loop.simps) simp
  qed
qed

lemma generate_loop_range:
  "\<forall>p\<in>set data. 20 \<le> p_temperature p \<and> p_temperature p \<le> 50 \<Longrightarrow>
   \<forall>p\<in>set (generate_loop rnd now fmt i b data). 20 \<le> p_temperature p \<and> p_temperature p \<le> 50"
proof (induction rnd now fmt i b data rule: generate_loop.induct)
  case (1 rnd now fmt i baseTemp data)
  show ?case
  proof (cases "i < 60")
    case True
    define variation where "variation = sin (real i / 10) * 8 + (rnd (2 * i) - 0.5) * 4"
    define temp where "temp = max 20 (min 50 (baseTemp + variation))"
    define point where "point = \<lparr>p_time = real i,
                     p_temperature = js_round (temp * 10) / 10,
                     p_timestamp = fmt (now i + int i * 60000),
                     p_id = None, p_device_id = None, p_dbTimestamp = None\<rparr>"
    define b' where "b' = baseTemp + (rnd (2 * i + 1) - 0.5) * 0.5"
    have step: "generate_loop rnd now fmt i baseTemp data =
                generate_loop rnd now fmt (Suc i) b' (data @ [point])"
      by (subst generate_loop.simps)
         (simp only: True if_True Let_def variation_def temp_def point_def b'_def)
    have "20 \<le> temp" "temp \<le> 50" by (simp_all add: temp_def)
    from js_round_bounds [OF this]
    have pt: "20 \<le> p_temperature point \<and> p_temperature point \<le> 50"
      by (simp only: point_def display_point.simps)
    have all: "\<forall>p\<in>set (data @ [point]). 20 \<le> p_temperature p \<and> p_temperature p \<le> 50"
    proof
      fix p assume "p \<in> set (data @ [point])"
      then have "p \<in> set data \<or> p = point" by auto
      with "1.prems" pt show "20 \<le> p_temperature p \<and> p_temperature p \<le> 50" by blast
    qed
    from "1.IH" [OF True variation_def temp_def point_def all]
    show ?thesis unfolding step b'_def .
  next
    case False
    with "1.prems" show ?thesis by (subst generate_loop.simps) simp
  qed
qed

lemma generate_length: "length (generateTemperatureData rnd now fmt) = 60"
  by (simp add: generateTemperatureData_def generate_loop_length)

lemma generate_range:
  "p \<in> set (generateTemperatureData rnd now fmt) \<Longrightarrow> 20 \<le> p_temperature p \<and> p_temperature p \<le> 50"
  using generate_loop_range [of "[]" rnd now fmt 0 35]
  by (simp add: generateTemperatureData_def)

text \<open>
  C6. When the fetch throws (transport or parse failure) or the response carries the
  failure flag, the fetch returns the fallback sequence: exactly 60 points, each with a
  temperature in \<open>[20, 50]\<close>, so the display sequence is not empty after such a fetch.
\<close>

theorem fetch_failure_fallback:
  assumes "response = Inl e \<or> (\<exists>result. response = Inr result \<and> \<not> res_ok result)"
  shows "fetchTemperatureData rnd now fmt getTime response = generateTemperatureData rnd now fmt
     \<and> length (fetchTemperatureData rnd now fmt getTime response) = 60
     \<and> (\<forall>p\<in>set (fetchTemperatureData rnd now fmt getTime response).
           20 \<le> p_temperature p \<and> p_temperature p \<le> 50)
     \<and> fetchTemperatureData rnd now fmt getTime response \<noteq> []"
proof -
  from assms have eq: "fetchTemperatureData rnd now fmt getTime response = generateTemperatureData rnd now fmt"
    by (auto simp: fetchTemperatureData_def split: option.splits)
  have "generateTemperatureData rnd now fmt \<noteq> []"
    using generate_length [of rnd now fmt] by auto
  with eq show ?thesis using generate_length [of rnd now fmt] generate_range [of _ rnd now fmt]
    by simp
qed


theorem fetch_failure_fallback_witness:
  "length (fetchTemperatureData (\<lambda>k. 1 / 2) (\<lambda>i. 0) (\<lambda>t. []) (\<lambda>t. 0) (Inl SyntaxError)) = 60
   \<and> fetchTemperatureData (\<lambda>k. 1 / 2) (\<lambda>i. 0) (\<lambda>t. []) (\<lambda>t. 0)
        (Inr \<lparr>res_ok = False, res_data = Some []\<rparr>) \<noteq> []"
proof -
  have a: "(Inl SyntaxError :: js_error + api_result) = Inl SyntaxError
           \<or> (\<exists>result. (Inl SyntaxError :: js_error + api_result) = Inr result \<and> \<not> res_ok result)"
    by simp
  have b: "(Inr \<lparr>res_ok = False, res_data = Some []\<rparr> :: js_error + api_result) = Inl SyntaxError
           \<or> (\<exists>result. (Inr \<lparr>res_ok = False, res_data = Some []\<rparr> :: js_error + api_result) = Inr result
                 \<and> \<not> res_ok result)"
    by simp
  from fetch_failure_fallback [OF a] fetch_failure_fallback [OF b] show ?thesis by blast
qed

text \<open>
  A successful response with no readings is not a failure: the fetch returns the empty
  sequence for it.
\<close>

lemma fetch_ok_empty:
  "fetchTemperatureData (\<lambda>k. 1 / 2) (\<lambda>i. 0) (\<lambda>t. []) (\<lambda>t. 0)
     (Inr \<lparr>res_ok = True, res_data = Some []\<rparr>) = []"
  by (simp add: fetchTemperatureData_def)






section \<open>Properties of the refresh scheduler\<close>








section \<open>Properties of the graph renderer\<close>

lemma graphWidth_value: "graphWidth = 700"
  by (simp add: graphWidth_def width_def padding_left_def padding_right_def)

lemma xScale_nonempty:
  "data \<noteq> [] \<Longrightarrow> xScale data t = 700 - (t / max (real (length data) - 1) 59) * 700"
  by (simp add: xScale_def graphWidth_value Let_def)

text \<open>
  C4. For a non-empty display sequence the scale maps index 0, the oldest point, to the
  right edge \<open>graphWidth\<close>, and a larger index to a strictly smaller x. With fewer than
  60 points the newest point lies right of the left edge, from 60 points on it lies on
  the left edge; and a point of positive index moves to the right when the sequence
  grows beyond 60 points: where a point lands depends on the length of the data.
\<close>

theorem xScale_inverted:
  assumes "data \<noteq> []"
  shows "xScale data 0 = graphWidth
     \<and> (\<forall>i j. i < j \<longrightarrow> xScale data j < xScale data i)
     \<and> (length data < 60 \<longrightarrow> 0 < xScale data (real (length data - 1)))
     \<and> (60 \<le> length data \<longrightarrow> xScale data (real (length data - 1)) = 0)
     \<and> (\<forall>longer t. 0 < t \<and> 60 < length longer \<and> length data < length longer
            \<longrightarrow> xScale data t < xScale longer t)"
proof -
  let ?m = "max (real (length data) - 1) 59"
  have m: "0 < ?m" by simp
  have a: "xScale data 0 = graphWidth"
    using assms by (simp add: xScale_nonempty graphWidth_value)
  have b: "\<forall>i j. i < j \<longrightarrow> xScale data j < xScale data i"
  proof (intro allI impI)
    fix i j :: real assume "i < j"
    with m have "i * 700 / ?m < j * 700 / ?m" by (simp add: divide_strict_right_mono)
    then show "xScale data j < xScale data i"
      using assms by (simp add: xScale_nonempty)
  qed
  have c: "length data < 60 \<longrightarrow> 0 < xScale data (real (length data - 1))"
  proof
    assume l: "length data < 60"
    then have mm: "?m = 59" by auto
    have "real (length data - 1) < 59" using l by auto
    then have "real (length data - 1) / 59 < 1" by simp
    then show "0 < xScale data (real (length data - 1))"
      using assms by (simp add: xScale_nonempty mm)
  qed
  have d: "60 \<le> length data \<longrightarrow> xScale data (real (length data - 1)) = 0"
  proof
    assume l: "60 \<le> length data"
    then have r: "real (length data - 1) = real (length data) - 1" by (simp add: of_nat_diff)
    from l have mm: "?m = real (length data) - 1" by auto
    from l have nz: "real (length data) - 1 \<noteq> 0" by auto
    have "xScale data (real (length data - 1))
            = 700 - ((real (length data) - 1) / (real (length data) - 1)) * 700"
      unfolding xScale_nonempty [OF assms] mm r ..
    also have "\<dots> = 0" using nz by simp
    finally show "xScale data (real (length data - 1)) = 0" .
  qed
  have e: "\<forall>longer t. 0 < t \<and> 60 < length longer \<and> length data < length longer
            \<longrightarrow> xScale data t < xScale longer t"
  proof (intro allI impI)
    fix longer :: "display_point list" and t :: real
    assume h: "0 < t \<and> 60 < length longer \<and> length data < length longer"
    let ?n = "max (real (length longer) - 1) 59"
    from h have ne: "longer \<noteq> []" by auto
    from h have lt: "?m < ?n" by auto
    from h have "0 < t * 700" by simp
    from divide_strict_left_mono [OF lt this] m
    have "t * 700 / ?n < t * 700 / ?m" by simp
    then show "xScale data t < xScale longer t"
      using assms ne by (simp add: xScale_nonempty)
  qed
  from a b c d e show ?thesis by blast
qed

text \<open>A sequence of one point: it sits on the right edge, and index 1 would lie left of it.\<close>

theorem xScale_inverted_witness:
  "xScale [\<lparr>p_time = 0, p_temperature = 25, p_timestamp = ''12:00'', p_id = None,
             p_device_id = None, p_dbTimestamp = None\<rparr>] 0 = graphWidth
   \<and> xScale [\<lparr>p_time = 0, p_temperature = 25, p_timestamp = ''12:00'', p_id = None,
             p_device_id = None, p_dbTimestamp = None\<rparr>] 1
       < xScale [\<lparr>p_time = 0, p_temperature = 25, p_timestamp = ''12:00'', p_id = None,
             p_device_id = None, p_dbTimestamp = None\<rparr>] 0
   \<and> 0 < xScale [\<lparr>p_time = 0, p_temperature = 25, p_timestamp = ''12:00'', p_id = None,
             p_device_id = None, p_dbTimestamp = None\<rparr>] 0"
proof -
  have ne: "[\<lparr>p_time = 0, p_temperature = 25, p_timestamp = ''12:00'', p_id = None,
             p_device_id = None, p_dbTimestamp = None\<rparr>] \<noteq> []" by simp
  let ?d = "[\<lparr>p_time = 0, p_temperature = 25, p_timestamp = ''12:00'', p_id = None,
             p_device_id = None, p_dbTimestamp = None\<rparr>]"
  from xScale_inverted [OF ne]
  have a: "xScale ?d 0 = graphWidth"
    and b: "\<forall>i j. i < j \<longrightarrow> xScale ?d j < xScale ?d i"
    and c: "length ?d < 60 \<longrightarrow> 0 < xScale ?d (real (length ?d - 1))"
    by blast+
  from b have "xScale ?d 1 < xScale ?d 0" by simp
  moreover from c have "0 < xScale ?d 0" by simp
  ultimately show ?thesis using a by simp
qed

lemma join_with_nonempty: "xs \<noteq> [] \<Longrightarrow> hd xs \<noteq> [] \<Longrightarrow> join_with sep xs \<noteq> []"
  by (cases "(sep, xs)" rule: join_with.cases) auto

lemma generatePath_empty_iff:
  "generatePath ops str temperatureData data = [] \<longleftrightarrow> data = []"
proof
  assume e: "generatePath ops str temperatureData data = []"
  show "data = []"
  proof (rule ccontr)
    assume "data \<noteq> []"
    then obtain p ps where d: "data = p # ps" by (cases data) auto
    let ?f = "\<lambda>(i, point).
                  let x = xScale_fl ops temperatureData (p_time point);
                      y = yScale_fl ops (p_temperature point)
                  in if i = 0 then ''M '' @ str x @ '' '' @ str y
                     else ''L '' @ str x @ '' '' @ str y"
    have "map ?f (enumerate (0::nat) data) \<noteq> []" using d by simp
    moreover have "hd (map ?f (enumerate (0::nat) data)) \<noteq> []"
      using d by (simp add: Let_def)
    ultimately have "join_with '' '' (map ?f (enumerate (0::nat) data)) \<noteq> []"
      by (rule join_with_nonempty)
    with e show False by (simp add: generatePath_def join_def)
  qed
next
  assume "data = []"
  then show "generatePath ops str temperatureData data = []"
    by (simp add: generatePath_def join_def)
qed

text \<open>
  C10. On the empty display sequence the scale returns 0 for every index, through its
  guard, and the path generator returns the empty string (and for no other sequence),
  under the exact and under any other arithmetic. The guard is not what keeps the
  division defined: the denominator of the scale is at least 59 for every sequence, and
  59 for the empty one.
\<close>

theorem render_empty:
  "xScale [] t = 0
   \<and> xScale_fl ops [] t = 0
   \<and> generatePath ops str temperatureData [] = []
   \<and> (generatePath ops str temperatureData data = [] \<longleftrightarrow> data = [])
   \<and> maxTime [] = 59
   \<and> 59 \<le> maxTime data
   \<and> xScale_fl exact_ops data t = xScale data t"
proof -
  have "xScale [] t = 0" "xScale_fl ops [] t = 0" "maxTime [] = 59" "59 \<le> maxTime data"
    by (simp_all add: xScale_def xScale_fl_def maxTime_def)
  moreover have "xScale_fl exact_ops data t = xScale data t"
    by (simp add: xScale_def xScale_fl_def xScale_body_def maxTime_def exact_ops_def Let_def)
  moreover have "generatePath ops str temperatureData [] = []"
    by (simp add: generatePath_empty_iff)
  ultimately show ?thesis using generatePath_empty_iff [of ops str temperatureData data]
    by blast
qed

text \<open>
  The claim as written has the guard avoid a division of 0 by 0. Without the guard, the
  body of the scale on the empty sequence divides by 59: index 0 would map to 700 and
  index 59 to 0.
\<close>

theorem render_empty_counterexample:
  "maxTime [] = 59
   \<and> xScale_body exact_ops [] 0 = 700
   \<and> xScale_body exact_ops [] 59 = 0"
  by (simp add: xScale_body_def maxTime_def exact_ops_def graphWidth_value)

lemma closest_step_eq:
  "closest_step ops data mx p (cp, cd) =
     (if (case cd of None \<Rightarrow> True | Some d \<Rightarrow> distance_to ops data mx p < d)
      then (Some (hover_of ops data p), Some (distance_to ops data mx p)) else (cp, cd))"
  by (cases cd) (simp_all add: closest_step_def distance_to_def hover_of_def Let_def)

lemma closest_fold:
  "xs \<noteq> [] \<Longrightarrow>
   \<exists>i<length xs.
      fold (closest_step ops data mx) xs (None, None)
        = (Some (hover_of ops data (xs ! i)), Some (distance_to ops data mx (xs ! i)))
      \<and> (\<forall>j<length xs. distance_to ops data mx (xs ! i) \<le> distance_to ops data mx (xs ! j))
      \<and> (\<forall>j<i. distance_to ops data mx (xs ! i) < distance_to ops data mx (xs ! j))"
proof (induction xs rule: rev_induct)
  case Nil
  then show ?case by simp
next
  case (snoc x xs)
  show ?case
  proof (cases "xs = []")
    case True
    then show ?thesis by (simp add: closest_step_eq)
  next
    case False
    from snoc.IH [OF False] obtain i where
      i: "i < length xs"
      and f: "fold (closest_step ops data mx) xs (None, None)
                = (Some (hover_of ops data (xs ! i)), Some (distance_to ops data mx (xs ! i)))"
      and mn: "\<forall>j<length xs. distance_to ops data mx (xs ! i) \<le> distance_to ops data mx (xs ! j)"
      and fs: "\<forall>j<i. distance_to ops data mx (xs ! i) < distance_to ops data mx (xs ! j)"
      by blast
    show ?thesis
    proof (cases "distance_to ops data mx x < distance_to ops data mx (xs ! i)")
      case True
      have "fold (closest_step ops data mx) (xs @ [x]) (None, None)
              = (Some (hover_of ops data x), Some (distance_to ops data mx x))"
        using True by (simp add: f closest_step_eq)
      moreover have "\<forall>j<length (xs @ [x]).
          distance_to ops data mx x \<le> distance_to ops data mx ((xs @ [x]) ! j)"
      proof (intro allI impI)
        fix j assume "j < length (xs @ [x])"
        then consider "j < length xs" | "j = length xs" by fastforce
        then show "distance_to ops data mx x \<le> distance_to ops data mx ((xs @ [x]) ! j)"
        proof cases
          case 1
          with mn True show ?thesis by (force simp: nth_append)
        next
          case 2
          then show ?thesis by simp
        qed
      qed
      moreover have "\<forall>j<length xs.
          distance_to ops data mx x < distance_to ops data mx ((xs @ [x]) ! j)"
      proof (intro allI impI)
        fix j assume j: "j < length xs"
        with mn have "distance_to ops data mx (xs ! i) \<le> distance_to ops data mx (xs ! j)"
          by blast
        with True j show "distance_to ops data mx x < distance_to ops data mx ((xs @ [x]) ! j)"
          by (simp add: nth_append)
      qed
      ultimately show ?thesis
        by (intro exI [of _ "length xs"]) simp
    next
      case False
      have "fold (closest_step ops data mx) (xs @ [x]) (None, None)
              = (Some (hover_of ops data (xs ! i)), Some (distance_to ops data mx (xs ! i)))"
        using False by (simp add: f closest_step_eq)
      moreover have "\<forall>j<length (xs @ [x]).
          distance_to ops data mx (xs ! i) \<le> distance_to ops data mx ((xs @ [x]) ! j)"
      proof (intro allI impI)
        fix j assume "j < length (xs @ [x])"
        then consider "j < length xs" | "j = length xs" by fastforce
        then show "distance_to ops data mx (xs ! i) \<le> distance_to ops data mx ((xs @ [x]) ! j)"
        proof cases
          case 1
          with mn show ?thesis by (simp add: nth_append)
        next
          case 2
          with False show ?thesis by simp
        qed
      qed
      moreover have "\<forall>j<i.
          distance_to ops data mx (xs ! i) < distance_to ops data mx ((xs @ [x]) ! j)"
        using fs i by (simp add: nth_append)
      ultimately show ?thesis
        using i by (intro exI [of _ i]) (simp add: nth_append)
    qed
  qed
qed

lemma closest_nearest:
  "data \<noteq> [] \<Longrightarrow>
   \<exists>i<length data.
      closest ops data mx
        = (Some (hover_of ops data (data ! i)), Some (distance_to ops data mx (data ! i)))
      \<and> (\<forall>j<length data. distance_to ops data mx (data ! i) \<le> distance_to ops data mx (data ! j))
      \<and> (\<forall>j<i. distance_to ops data mx (data ! i) < distance_to ops data mx (data ! j))"
  unfolding closest_def by (rule closest_fold)

lemma closest_empty: "closest ops [] mx = (None, None)"
  by (simp add: closest_def)

text \<open>
  C3. With the graph container bound, and whatever the arithmetic rounds to: a point the
  hit test reveals is the point of the display sequence whose computed horizontal
  distance from the pointer is least, the first such point in sequence order, and that
  distance is below 20; when every point is 20 or more away no point is revealed; and a
  pointer inside the graph area with a point closer than 20 reveals one.
\<close>

theorem handleMouseMove_nearest:
  assumes "graphContainer = Some rect"
    and "mouseX = f_sub ops (f_sub ops (clientX event) (rect_left rect)) padding_left"
    and "mouseY = f_sub ops (f_sub ops (clientY event) (rect_top rect)) padding_top"
  shows "(\<forall>hp. handleMouseMove ops data graphContainer event hoveredPoint = Some hp \<longrightarrow>
            (\<exists>i<length data. hp = hover_of ops data (data ! i)
               \<and> distance_to ops data mouseX (data ! i) < 20
               \<and> (\<forall>j<length data.
                     distance_to ops data mouseX (data ! i) \<le> distance_to ops data mouseX (data ! j))
               \<and> (\<forall>j<i.
                     distance_to ops data mouseX (data ! i) < distance_to ops data mouseX (data ! j))))
     \<and> ((\<forall>p\<in>set data. 20 \<le> distance_to ops data mouseX p) \<longrightarrow>
            handleMouseMove ops data graphContainer event hoveredPoint = None)
     \<and> (0 \<le> mouseX \<and> mouseX \<le> graphWidth \<and> 0 \<le> mouseY \<and> mouseY \<le> graphHeight
          \<and> (\<exists>p\<in>set data. distance_to ops data mouseX p < 20) \<longrightarrow>
            handleMouseMove ops data graphContainer event hoveredPoint \<noteq> None)"
proof (cases "data = []")
  case True
  with assms show ?thesis by (simp add: handleMouseMove_def closest_empty Let_def)
next
  case False
  from closest_nearest [OF False, of ops mouseX] obtain i where
    i: "i < length data"
    and c: "closest ops data mouseX
              = (Some (hover_of ops data (data ! i)), Some (distance_to ops data mouseX (data ! i)))"
    and mn: "\<forall>j<length data.
               distance_to ops data mouseX (data ! i) \<le> distance_to ops data mouseX (data ! j)"
    and fs: "\<forall>j<i. distance_to ops data mouseX (data ! i) < distance_to ops data mouseX (data ! j)"
    by blast
  have res: "handleMouseMove ops data graphContainer event hoveredPoint =
        (if 0 \<le> mouseX \<and> mouseX \<le> graphWidth \<and> 0 \<le> mouseY \<and> mouseY \<le> graphHeight
            \<and> distance_to ops data mouseX (data ! i) < 20
         then Some (hover_of ops data (data ! i)) else None)"
    using assms c by (simp add: handleMouseMove_def Let_def)
  have A: "\<forall>hp. handleMouseMove ops data graphContainer event hoveredPoint = Some hp \<longrightarrow>
            (\<exists>i<length data. hp = hover_of ops data (data ! i)
               \<and> distance_to ops data mouseX (data ! i) < 20
               \<and> (\<forall>j<length data.
                     distance_to ops data mouseX (data ! i) \<le> distance_to ops data mouseX (data ! j))
               \<and> (\<forall>j<i.
                     distance_to ops data mouseX (data ! i) < distance_to ops data mouseX (data ! j)))"
  proof (intro allI impI)
    fix hp assume "handleMouseMove ops data graphContainer event hoveredPoint = Some hp"
    with res have "hp = hover_of ops data (data ! i)" "distance_to ops data mouseX (data ! i) < 20"
      by (auto split: if_splits)
    with i mn fs show "\<exists>i<length data. hp = hover_of ops data (data ! i)
               \<and> distance_to ops data mouseX (data ! i) < 20
               \<and> (\<forall>j<length data.
                     distance_to ops data mouseX (data ! i) \<le> distance_to ops data mouseX (data ! j))
               \<and> (\<forall>j<i.
                     distance_to ops data mouseX (data ! i) < distance_to ops data mouseX (data ! j))"
      by blast
  qed
  have B: "(\<forall>p\<in>set data. 20 \<le> distance_to ops data mouseX p) \<longrightarrow>
            handleMouseMove ops data graphContainer event hoveredPoint = None"
  proof
    assume "\<forall>p\<in>set data. 20 \<le> distance_to ops data mouseX p"
    with i have "20 \<le> distance_to ops data mouseX (data ! i)" by simp
    with res show "handleMouseMove ops data graphContainer event hoveredPoint = None" by simp
  qed
  have C: "0 \<le> mouseX \<and> mouseX \<le> graphWidth \<and> 0 \<le> mouseY \<and> mouseY \<le> graphHeight
          \<and> (\<exists>p\<in>set data. distance_to ops data mouseX p < 20) \<longrightarrow>
            handleMouseMove ops data graphContainer event hoveredPoint \<noteq> None"
  proof
    assume h: "0 \<le> mouseX \<and> mouseX \<le> graphWidth \<and> 0 \<le> mouseY \<and> mouseY \<le> graphHeight
          \<and> (\<exists>p\<in>set data. distance_to ops data mouseX p < 20)"
    then obtain p where "p \<in> set data" "distance_to ops data mouseX p < 20" by blast
    then obtain j where "j < length data" "distance_to ops data mouseX (data ! j) < 20"
      by (auto simp: in_set_conv_nth)
    with mn have "distance_to ops data mouseX (data ! i) < 20" by force
    with res h show "handleMouseMove ops data graphContainer event hoveredPoint \<noteq> None" by simp
  qed
  from A B C show ?thesis by blast
qed

text \<open>
  Three points under exact arithmetic. A pointer midway between the first two is at
  the same distance from both, nearer than the third: the first is revealed. A pointer
  far to the left of all three reveals nothing.
\<close>

theorem handleMouseMove_nearest_witness:
  "handleMouseMove exact_ops
     [\<lparr>p_time = 0, p_temperature = 25, p_timestamp = ''12:00'', p_id = Some 1,
        p_device_id = None, p_dbTimestamp = None\<rparr>,
      \<lparr>p_time = 1, p_temperature = 26, p_timestamp = ''12:01'', p_id = Some 2,
        p_device_id = None, p_dbTimestamp = None\<rparr>,
      \<lparr>p_time = 2, p_temperature = 27, p_timestamp = ''12:02'', p_id = Some 3,
        p_device_id = None, p_dbTimestamp = None\<rparr>]
     (Some \<lparr>rect_left = 0, rect_top = 0\<rparr>) \<lparr>clientX = 44490 / 59, clientY = 100\<rparr> None
   = Some (hover_of exact_ops
     [\<lparr>p_time = 0, p_temperature = 25, p_timestamp = ''12:00'', p_id = Some 1,
        p_device_id = None, p_dbTimestamp = None\<rparr>,
      \<lparr>p_time = 1, p_temperature = 26, p_timestamp = ''12:01'', p_id = Some 2,
        p_device_id = None, p_dbTimestamp = None\<rparr>,
      \<lparr>p_time = 2, p_temperature = 27, p_timestamp = ''12:02'', p_id = Some 3,
        p_device_id = None, p_dbTimestamp = None\<rparr>]
     \<lparr>p_time = 0, p_temperature = 25, p_timestamp = ''12:00'', p_id = Some 1,
        p_device_id = None, p_dbTimestamp = None\<rparr>)
   \<and> handleMouseMove exact_ops
     [\<lparr>p_time = 0, p_temperature = 25, p_timestamp = ''12:00'', p_id = Some 1,
        p_device_id = None, p_dbTimestamp = None\<rparr>,
      \<lparr>p_time = 1, p_temperature = 26, p_timestamp = ''12:01'', p_id = Some 2,
        p_device_id = None, p_dbTimestamp = None\<rparr>,
      \<lparr>p_time = 2, p_temperature = 27, p_timestamp = ''12:02'', p_id = Some 3,
        p_device_id = None, p_dbTimestamp = None\<rparr>]
     (Some \<lparr>rect_left = 0, rect_top = 0\<rparr>) \<lparr>clientX = 160, clientY = 100\<rparr> None
   = None"
proof -
  let ?p0 = "\<lparr>p_time = 0, p_temperature = 25, p_timestamp = ''12:00'', p_id = Some 1,
        p_device_id = None, p_dbTimestamp = None\<rparr>"
  let ?p1 = "\<lparr>p_time = 1, p_temperature = 26, p_timestamp = ''12:01'', p_id = Some 2,
        p_device_id = None, p_dbTimestamp = None\<rparr>"
  let ?p2 = "\<lparr>p_time = 2, p_temperature = 27, p_timestamp = ''12:02'', p_id = Some 3,
        p_device_id = None, p_dbTimestamp = None\<rparr>"
  let ?d = "[?p0, ?p1, ?p2]"
  let ?r = "\<lparr>rect_left = 0, rect_top = 0\<rparr>"
  let ?e = "\<lparr>clientX = 44490 / 59, clientY = 100\<rparr>"
  let ?f = "\<lparr>clientX = 160, clientY = 100\<rparr>"
  have d: "distance_to exact_ops ?d (40950 / 59) ?p0 = 350 / 59"
          "distance_to exact_ops ?d (40950 / 59) ?p1 = 350 / 59"
          "distance_to exact_ops ?d (40950 / 59) ?p2 = 1050 / 59"
    by (simp_all add: distance_to_def exact_ops_def xScale_fl_def xScale_body_def maxTime_def
          graphWidth_value)
  have far: "\<forall>p\<in>set ?d. 20 \<le> distance_to exact_ops ?d 100 p"
    by (simp add: distance_to_def exact_ops_def xScale_fl_def xScale_body_def maxTime_def
          graphWidth_value)
  have g: "graphWidth = 700" "graphHeight = 320" "padding_left = 60" "padding_top = 20"
    by (simp_all add: graphWidth_def graphHeight_def width_def height_def padding_left_def
          padding_right_def padding_top_def padding_bottom_def)
  have mx: "(40950 / 59 :: real) = f_sub exact_ops (f_sub exact_ops (clientX ?e) (rect_left ?r)) padding_left"
    by (simp add: exact_ops_def g)
  have my: "(80 :: real) = f_sub exact_ops (f_sub exact_ops (clientY ?e) (rect_top ?r)) padding_top"
    by (simp add: exact_ops_def g)
  have mx': "(100 :: real) = f_sub exact_ops (f_sub exact_ops (clientX ?f) (rect_left ?r)) padding_left"
    by (simp add: exact_ops_def g)
  have my': "(80 :: real) = f_sub exact_ops (f_sub exact_ops (clientY ?f) (rect_top ?r)) padding_top"
    by (simp add: exact_ops_def g)
  note near = handleMouseMove_nearest [OF refl mx my, of ?d None]
  note away = handleMouseMove_nearest [OF refl mx' my', of ?d None]
  from away far have b: "handleMouseMove exact_ops ?d (Some ?r) ?f None = None" by blast
  have inside: "0 \<le> (40950 / 59 :: real) \<and> (40950 / 59 :: real) \<le> graphWidth
      \<and> 0 \<le> (80::real) \<and> (80::real) \<le> graphHeight
      \<and> (\<exists>p\<in>set ?d. distance_to exact_ops ?d (40950 / 59) p < 20)"
    using d by (simp add: g)
  with near have "handleMouseMove exact_ops ?d (Some ?r) ?e None \<noteq> None" by blast
  then obtain hp where hp: "handleMouseMove exact_ops ?d (Some ?r) ?e None = Some hp" by blast
  with near obtain i where i: "i < length ?d" "hp = hover_of exact_ops ?d (?d ! i)"
    and fs: "\<forall>j<i. distance_to exact_ops ?d (40950 / 59) (?d ! i)
                  < distance_to exact_ops ?d (40950 / 59) (?d ! j)"
    by blast
  have "i = 0"
  proof (rule ccontr)
    assume "i \<noteq> 0"
    with i(1) have "i = 1 \<or> i = 2" by auto
    then show False
    proof
      assume i1: "i = 1"
      then have "0 < i" by simp
      from fs [rule_format, OF this] i1
      have "distance_to exact_ops ?d (40950 / 59) ?p1 < distance_to exact_ops ?d (40950 / 59) ?p0"
        by simp
      with d show False by simp
    next
      assume i2: "i = 2"
      then have "0 < i" by simp
      from fs [rule_format, OF this] i2
      have "distance_to exact_ops ?d (40950 / 59) ?p2 < distance_to exact_ops ?d (40950 / 59) ?p0"
        by simp
      with d show False by simp
    qed
  qed
  with i hp have a: "handleMouseMove exact_ops ?d (Some ?r) ?e None = Some (hover_of exact_ops ?d ?p0)"
    by simp
  from a b show ?thesis by simp
qed

end
